theory Spec2Isabelle
  imports Complex_Main
begin

section \<open>The DCF engine of valuation\_analysis.py\<close>

text \<open>
  The embedding follows \<^verbatim>\<open>_calculate_dcf_value\<close> of
  \<^verbatim>\<open>src/tools/valuation_analysis.py\<close> statement by statement.

  Numbers: the source computes on floating-point numbers (\<^verbatim>\<open>List[float]\<close>,
  \<^verbatim>\<open>float\<close>) and on one Python int (\<^verbatim>\<open>forecast_years\<close>). The floating-point numbers
  are idealised as \<^typ>\<open>real\<close>: rounding, overflow (the \<^verbatim>\<open>OverflowError\<close> of
  \<^verbatim>\<open>**\<close>), underflow to zero, infinities and NaN are outside the model. For this
  reason the theorems of the claims either speak about the dictionary the function
  returns, whenever it returns one, or about failures that no rounding can change; none
  of them promises for all inputs that a result is returned. (The lemmas \<open>dcf_body\<close>
  and \<open>dcf_returns\<close> do: they hold in the idealised arithmetic, and the examples use
  them at small inputs, far from any overflow.) The int is an \<^typ>\<open>int\<close>.

  The elements of \<^verbatim>\<open>cash_flows\<close> come in two kinds, and the division by zero tells
  them apart. For Python's built-in numbers, which the signature declares and a direct
  call such as \<^verbatim>\<open>_calculate_dcf_value([100, 1000])\<close> passes, \<^verbatim>\<open>x / 0.0\<close> raises
  \<^verbatim>\<open>ZeroDivisionError\<close>. For numpy \<^verbatim>\<open>float64\<close> scalars, which the tool
  \<^verbatim>\<open>calculate_dcf_valuation\<close> passes (it builds the list with \<^verbatim>\<open>pd.to_numeric\<close>),
  \<^verbatim>\<open>x / 0.0\<close> gives an infinity or a NaN with a warning, and the function goes on and
  returns a dictionary that holds it. The kind is a parameter of the model. The two
  rates are Python floats in both cases.

  Outcomes: besides the dictionary of results, the function \<^emph>\<open>returns\<close> a dictionary with
  the single key \<^verbatim>\<open>"error"\<close> when there is too little data, and Python \<^emph>\<open>raises\<close>
  \<^verbatim>\<open>IndexError\<close> on \<^verbatim>\<open>xs[-1]\<close> of an empty list and \<^verbatim>\<open>ZeroDivisionError\<close> on a
  division of built-in numbers by zero. With numpy scalars a division by zero leads to
  a returned dictionary with an infinite or NaN entry, which no record of reals can hold:
  the model stops there with \<open>NonFiniteDict\<close>. All four are values of the type
  \<open>error\<close>, and the function returns \<open>error + dcf_result\<close>, where \<open>Inr\<close> is a dictionary
  of finite results.
\<close>

datatype scalar_kind =
    PythonFloat    \<comment> \<open>built-in \<^verbatim>\<open>float\<close> (or \<^verbatim>\<open>int\<close>) elements\<close>
  | NumpyFloat64   \<comment> \<open>\<^verbatim>\<open>numpy.float64\<close> elements\<close>

datatype error =
    ErrorDict string  \<comment> \<open>the returned dictionary \<^verbatim>\<open>{"error": msg}\<close>\<close>
  | IndexError
  | ZeroDivisionError
  | NonFiniteDict     \<comment> \<open>numpy only: a returned dictionary with an infinite or NaN entry\<close>

text \<open>The dictionary returned on success, one field per key.\<close>

record dcf_result =
  enterprise_value :: real
  pv_cash_flows :: real
  pv_terminal_value :: real
  terminal_value :: real
  forecast_growth_rate :: real
  historical_growth :: real
  projected_cash_flows :: "real list"

subsection \<open>Python primitives\<close>

text \<open>
  \<^verbatim>\<open>a / b\<close> with \<^verbatim>\<open>b\<close> zero: it raises when \<^verbatim>\<open>a\<close> is a built-in number, and gives
  an infinity or a NaN when \<^verbatim>\<open>a\<close> is a numpy scalar.
\<close>

definition zero_division :: "scalar_kind \<Rightarrow> error" where
  "zero_division kind =
     (case kind of PythonFloat \<Rightarrow> ZeroDivisionError | NumpyFloat64 \<Rightarrow> NonFiniteDict)"

definition py_div :: "scalar_kind \<Rightarrow> real \<Rightarrow> real \<Rightarrow> error + real" where
  "py_div kind a b = (if b = 0 then Inl (zero_division kind) else Inr (a / b))"

text \<open>\<^verbatim>\<open>xs[0]\<close> and \<^verbatim>\<open>xs[-1]\<close> raise on the empty list.\<close>

definition py_first :: "'a list \<Rightarrow> error + 'a" where
  "py_first xs = (case xs of [] \<Rightarrow> Inl IndexError | x # _ \<Rightarrow> Inr x)"

definition py_last :: "'a list \<Rightarrow> error + 'a" where
  "py_last xs = (if xs = [] then Inl IndexError else Inr (last xs))"

text \<open>\<^verbatim>\<open>sum(xs)\<close> adds from the left, starting at 0.\<close>

definition py_sum :: "real list \<Rightarrow> real" where
  "py_sum xs = foldl (+) 0 xs"

text \<open>Sequencing of a step that may fail with the rest of the function body.\<close>

definition bind :: "error + 'a \<Rightarrow> ('a \<Rightarrow> error + 'b) \<Rightarrow> error + 'b" where
  "bind m f = (case m of Inl e \<Rightarrow> Inl e | Inr v \<Rightarrow> f v)"

subsection \<open>The two loops\<close>

text \<open>
  \<^verbatim>\<open>for year in range(1, forecast_years + 1):
      next_cf = last_cf * (1 + forecast_growth_rate) ** year
      projected_cash_flows.append(next_cf)\<close>

  \<^verbatim>\<open>range(1, n + 1)\<close> is the list \<open>[1..n]\<close> of ints, empty when \<open>n < 1\<close>. Every \<open>year\<close>
  of it is at least 1, so float \<^verbatim>\<open>**\<close> int is the power with exponent \<open>nat year\<close>.
\<close>

definition project_cash_flows :: "real \<Rightarrow> real \<Rightarrow> int \<Rightarrow> real list" where
  "project_cash_flows last_cf growth_rate forecast_years =
     map (\<lambda>year. last_cf * (1 + growth_rate) ^ nat year) [1..forecast_years]"

text \<open>
  \<^verbatim>\<open>for i, cf in enumerate(projected_cash_flows, 1):
      pv = cf / (1 + discount_rate) ** i
      pv_cash_flows.append(pv)\<close>

  The loop carries the counter \<open>i\<close> and the list \<open>pvs\<close> built so far (the source's
  \<^verbatim>\<open>pv_cash_flows\<close>; the parameters \<open>growth_rate\<close> and \<open>pvs\<close> are renamed because
  the result record has fields of the source's names), and stops at the first division
  by zero. The projected cash flows are of the kind of the input cash flows.
\<close>

fun discount_loop ::
  "scalar_kind \<Rightarrow> real \<Rightarrow> nat \<Rightarrow> real list \<Rightarrow> real list \<Rightarrow> error + real list" where
  "discount_loop kind discount_rate i [] pvs = Inr pvs"
| "discount_loop kind discount_rate i (cf # rest) pvs =
     bind (py_div kind cf ((1 + discount_rate) ^ i))
       (\<lambda>pv. discount_loop kind discount_rate (Suc i) rest (pvs @ [pv]))"

subsection \<open>The function\<close>

text \<open>
  \<^verbatim>\<open>(a / b) ** (1 / (n - 1))\<close> is float \<^verbatim>\<open>**\<close> float; its base is a quotient of two
  retained (positive) cash flows, where it is \<open>powr\<close>. \<^verbatim>\<open>min(h, 0.15)\<close> is \<open>min\<close>.
  \<^verbatim>\<open>(1 + discount_rate) ** forecast_years\<close> is reached only after
  \<^verbatim>\<open>projected_cash_flows[-1]\<close> has succeeded, that is with \<open>forecast_years \<ge> 1\<close>.
  \<^verbatim>\<open>1 / (len(cash_flows) - 1)\<close> divides two Python ints whatever the kind of the
  elements; every other division has a numerator computed from the cash flows.
\<close>

definition calculate_dcf_value ::
  "scalar_kind \<Rightarrow> real list \<Rightarrow> real \<Rightarrow> real \<Rightarrow> int \<Rightarrow> error + dcf_result" where
  "calculate_dcf_value kind cash_flows0 terminal_growth_rate discount_rate forecast_years =
    (if length cash_flows0 < 2
     then Inl (ErrorDict ''Insufficient cash flow data for DCF calculation'')
     else
       let cash_flows = filter (\<lambda>cf. cf > 0) cash_flows0 in
       if length cash_flows < 2
       then Inl (ErrorDict ''Insufficient positive cash flow data'')
       else
         bind (py_last cash_flows) (\<lambda>cf_last.
         bind (py_first cash_flows) (\<lambda>cf_first.
         bind (py_div kind cf_last cf_first) (\<lambda>ratio.
         bind (py_div PythonFloat 1 (real (length cash_flows - 1))) (\<lambda>expo.
           let historical_growth = ratio powr expo - 1;
               forecast_growth_rate = min historical_growth (15 / 100)
           in
         bind (py_last cash_flows) (\<lambda>last_cf.
           let projected_cash_flows =
                 project_cash_flows last_cf forecast_growth_rate forecast_years
           in
         bind (py_last projected_cash_flows) (\<lambda>cf_final.
           let terminal_cf = cf_final * (1 + terminal_growth_rate) in
         bind (py_div kind terminal_cf (discount_rate - terminal_growth_rate)) (\<lambda>terminal_value.
         bind (discount_loop kind discount_rate 1 projected_cash_flows []) (\<lambda>pv_cash_flows.
         bind (py_div kind terminal_value ((1 + discount_rate) ^ nat forecast_years)) (\<lambda>pv_terminal.
           let enterprise_value = py_sum pv_cash_flows + pv_terminal in
           Inr \<lparr> enterprise_value = enterprise_value,
                 pv_cash_flows = py_sum pv_cash_flows,
                 pv_terminal_value = pv_terminal,
                 terminal_value = terminal_value,
                 forecast_growth_rate = forecast_growth_rate,
                 historical_growth = historical_growth,
                 projected_cash_flows = projected_cash_flows \<rparr>))))))))))"

subsection \<open>Closed forms of the intermediate quantities\<close>

text \<open>
  The retained cash flows and the quantities the function computes from them, each under
  a name, so that the lemmas below can speak about them. The defaults of the signature
  (\<^verbatim>\<open>terminal_growth_rate = 0.025\<close>, \<^verbatim>\<open>discount_rate = 0.10\<close>,
  \<^verbatim>\<open>forecast_years = 5\<close>) are written out where an example uses them, as
  \<open>25 / 1000\<close>, \<open>10 / 100\<close> and \<open>5\<close>.
\<close>

definition positive_flows :: "real list \<Rightarrow> real list" where
  "positive_flows cash_flows0 = filter (\<lambda>cf. cf > 0) cash_flows0"

definition cagr :: "real list \<Rightarrow> real" where
  "cagr cf = (last cf / hd cf) powr (1 / real (length cf - 1)) - 1"

definition capped_growth :: "real list \<Rightarrow> real" where
  "capped_growth cf = min (cagr cf) (15 / 100)"

definition projection :: "real list \<Rightarrow> int \<Rightarrow> real list" where
  "projection cf n = project_cash_flows (last cf) (capped_growth cf) n"

definition gordon_value :: "real list \<Rightarrow> real \<Rightarrow> real \<Rightarrow> int \<Rightarrow> real" where
  "gordon_value cf t d n = last (projection cf n) * (1 + t) / (d - t)"

definition discounted :: "real \<Rightarrow> nat \<Rightarrow> real list \<Rightarrow> real list" where
  "discounted d i xs = map (\<lambda>(j, cf). cf / (1 + d) ^ j) (zip [i..<i + length xs] xs)"

text \<open>The dictionary the function returns when every step succeeds, in closed form.\<close>

definition valuation :: "real list \<Rightarrow> real \<Rightarrow> real \<Rightarrow> int \<Rightarrow> dcf_result" where
  "valuation cf t d n =
     \<lparr> enterprise_value =
         sum_list (discounted d 1 (projection cf n)) + gordon_value cf t d n / (1 + d) ^ nat n,
       pv_cash_flows = sum_list (discounted d 1 (projection cf n)),
       pv_terminal_value = gordon_value cf t d n / (1 + d) ^ nat n,
       terminal_value = gordon_value cf t d n,
       forecast_growth_rate = capped_growth cf,
       historical_growth = cagr cf,
       projected_cash_flows = projection cf n \<rparr>"

subsection \<open>The function through the error taxonomy of the specification\<close>

text \<open>
  The specification calls the function \<open>computeDCF\<close> and gives it one error for too
  little data, \<open>InsufficientDataError\<close>, where the source returns one of two error
  dictionaries that differ in their message. \<open>computeDCF\<close> is the source function with
  the message forgotten; every other outcome is kept as it is.
\<close>

datatype spec_outcome =
    InsufficientDataError
  | Other error
  | DCFResult dcf_result

definition spec_view :: "error + dcf_result \<Rightarrow> spec_outcome" where
  "spec_view x =
     (case x of
        Inl e \<Rightarrow> (case e of ErrorDict msg \<Rightarrow> InsufficientDataError | _ \<Rightarrow> Other e)
      | Inr r \<Rightarrow> DCFResult r)"

definition computeDCF ::
  "scalar_kind \<Rightarrow> real list \<Rightarrow> real \<Rightarrow> real \<Rightarrow> int \<Rightarrow> spec_outcome" where
  "computeDCF kind cash_flows terminal_growth_rate discount_rate forecast_years =
     spec_view (calculate_dcf_value kind cash_flows terminal_growth_rate discount_rate
       forecast_years)"

section \<open>Lemmas about the embedding\<close>

lemma bind_Inr [simp]: "bind (Inr v) f = f v"
  by (simp add: bind_def)

lemma bind_Inl [simp]: "bind (Inl e) f = Inl e"
  by (simp add: bind_def)

lemma py_sum_sum_list: "py_sum xs = sum_list xs"
proof -
  have "foldl (+) a xs = a + sum_list xs" for a :: real
    by (induction xs arbitrary: a) simp_all
  from this [of 0] show ?thesis by (simp add: py_sum_def)
qed

lemma discounted_Nil [simp]: "discounted d i [] = []"
  by (simp add: discounted_def)

lemma discounted_Cons: "discounted d i (x # xs) = x / (1 + d) ^ i # discounted d (Suc i) xs"
proof -
  have "[i..<i + Suc (length xs)] = i # [Suc i..<Suc i + length xs]"
    by (simp add: upt_conv_Cons del: upt_Suc)
  then show ?thesis by (simp add: discounted_def del: upt_Suc)
qed

lemma discount_loop_ok:
  "1 + d \<noteq> 0 \<Longrightarrow> discount_loop kind d i xs acc = Inr (acc @ discounted d i xs)"
  by (induction xs arbitrary: i acc) (simp_all add: discounted_Cons py_div_def)

lemma discount_loop_zero:
  "1 + d = 0 \<Longrightarrow> xs \<noteq> [] \<Longrightarrow> 0 < i \<Longrightarrow>
   discount_loop kind d i xs acc = Inl (zero_division kind)"
  by (cases xs) (simp_all add: py_div_def)

lemma project_Nil: "n < 1 \<Longrightarrow> project_cash_flows c g n = []"
  by (simp add: project_cash_flows_def)

lemma project_not_Nil: "1 \<le> n \<Longrightarrow> project_cash_flows c g n \<noteq> []"
  by (simp add: project_cash_flows_def)

lemma py_last_flows: "xs \<noteq> [] \<Longrightarrow> py_last xs = Inr (last xs)"
  by (simp add: py_last_def)

lemma py_first_flows: "xs \<noteq> [] \<Longrightarrow> py_first xs = Inr (hd xs)"
  by (cases xs) (simp_all add: py_first_def)

lemma positive_hd: "positive_flows cfs \<noteq> [] \<Longrightarrow> 0 < hd (positive_flows cfs)"
proof -
  assume "positive_flows cfs \<noteq> []"
  then have "hd (positive_flows cfs) \<in> set (positive_flows cfs)" by simp
  then show ?thesis by (simp add: positive_flows_def)
qed

lemma positive_last: "positive_flows cfs \<noteq> [] \<Longrightarrow> 0 < last (positive_flows cfs)"
proof -
  assume "positive_flows cfs \<noteq> []"
  then have "last (positive_flows cfs) \<in> set (positive_flows cfs)" by simp
  then show ?thesis by (simp add: positive_flows_def)
qed

text \<open>The body after the two length checks, as one equation.\<close>

lemma dcf_body:
  assumes "2 \<le> length (positive_flows cfs)"
  shows "calculate_dcf_value kind cfs t d n =
    (if n < 1 then Inl IndexError
     else if d = t then Inl (zero_division kind)
     else if d = - 1 then Inl (zero_division kind)
     else Inr (valuation (positive_flows cfs) t d n))"
proof -
  let ?cf = "positive_flows cfs"
  have "length ?cf \<le> length cfs"
    unfolding positive_flows_def by (rule length_filter_le)
  with assms have len: "2 \<le> length cfs" by linarith
  have ne: "?cf \<noteq> []" using assms by auto
  have hd0: "hd ?cf \<noteq> 0" using positive_hd [OF ne] by simp
  have len1: "real (length ?cf - 1) \<noteq> 0" using assms by simp
  have start: "calculate_dcf_value kind cfs t d n =
      bind (py_last (projection ?cf n)) (\<lambda>cf_final.
      bind (py_div kind (cf_final * (1 + t)) (d - t)) (\<lambda>tv.
      bind (discount_loop kind d 1 (projection ?cf n) []) (\<lambda>pvs.
      bind (py_div kind tv ((1 + d) ^ nat n)) (\<lambda>pvt.
        Inr \<lparr> enterprise_value = py_sum pvs + pvt,
              pv_cash_flows = py_sum pvs,
              pv_terminal_value = pvt,
              terminal_value = tv,
              forecast_growth_rate = capped_growth ?cf,
              historical_growth = cagr ?cf,
              projected_cash_flows = projection ?cf n \<rparr>))))"
    using len assms ne hd0 len1
    unfolding calculate_dcf_value_def positive_flows_def [symmetric]
    by (simp add: Let_def py_last_flows py_first_flows py_div_def
        projection_def capped_growth_def cagr_def)
  show ?thesis
  proof (cases "n < 1")
    case True
    then show ?thesis unfolding start
      by (simp add: projection_def project_Nil py_last_def)
  next
    case n1: False
    then have pne: "projection ?cf n \<noteq> []"
      by (simp add: projection_def project_not_Nil)
    show ?thesis
    proof (cases "d = t")
      case True
      then show ?thesis unfolding start using n1 pne
        by (simp add: py_last_flows py_div_def)
    next
      case dt: False
      show ?thesis
      proof (cases "d = - 1")
        case True
        then show ?thesis unfolding start using n1 pne dt
          by (simp add: py_last_flows py_div_def discount_loop_zero)
      next
        case False
        then have "1 + d \<noteq> 0" by linarith
        then show ?thesis unfolding start using n1 pne dt False
          by (simp add: py_last_flows py_div_def discount_loop_ok
              py_sum_sum_list valuation_def gordon_value_def)
      qed
    qed
  qed
qed

lemma dcf_short:
  "length cfs < 2 \<Longrightarrow> calculate_dcf_value kind cfs t d n =
     Inl (ErrorDict ''Insufficient cash flow data for DCF calculation'')"
  by (simp add: calculate_dcf_value_def)

lemma dcf_few_positive:
  "2 \<le> length cfs \<Longrightarrow> length (positive_flows cfs) < 2 \<Longrightarrow>
   calculate_dcf_value kind cfs t d n = Inl (ErrorDict ''Insufficient positive cash flow data'')"
  by (simp add: calculate_dcf_value_def positive_flows_def)

lemma dcf_returned:
  assumes "calculate_dcf_value kind cfs t d n = Inr r"
  shows "2 \<le> length (positive_flows cfs)" and "1 \<le> n" and "d \<noteq> t" and "d \<noteq> - 1"
    and "r = valuation (positive_flows cfs) t d n"
proof -
  show two: "2 \<le> length (positive_flows cfs)"
  proof (rule ccontr)
    assume "\<not> 2 \<le> length (positive_flows cfs)"
    then have few: "length (positive_flows cfs) < 2" by simp
    show False
    proof (cases "length cfs < 2")
      case True
      from dcf_short [OF this, of kind t d n] assms show False by simp
    next
      case False
      then have "2 \<le> length cfs" by simp
      from dcf_few_positive [OF this few, of kind t d n] assms show False by simp
    qed
  qed
  from assms dcf_body [OF two, of kind t d n]
  show "1 \<le> n" and "d \<noteq> t" and "d \<noteq> - 1" and "r = valuation (positive_flows cfs) t d n"
    by (auto split: if_splits)
qed

lemma dcf_returns:
  "2 \<le> length (positive_flows cfs) \<Longrightarrow> 1 \<le> n \<Longrightarrow> d \<noteq> t \<Longrightarrow> d \<noteq> - 1 \<Longrightarrow>
   calculate_dcf_value kind cfs t d n = Inr (valuation (positive_flows cfs) t d n)"
  by (simp add: dcf_body)

lemma upto_as_upt: "map (\<lambda>year. f (nat year)) [1..int m] = map f [1..<Suc m]"
proof (induction m)
  case 0
  then show ?case by simp
next
  case (Suc m)
  have a: "[1..int (Suc m)] = [1..int m] @ [int (Suc m)]"
    using upto_rec2 [of 1 "int (Suc m)"] by simp
  have b: "[1..<Suc (Suc m)] = [1..<Suc m] @ [Suc m]"
    by simp
  have c: "nat (int (Suc m)) = Suc m"
    by (rule nat_int)
  show ?case
    unfolding a b map_append Suc.IH by (simp only: c list.map)
qed

lemma project_as_upt:
  "project_cash_flows c g n = map (\<lambda>k. c * (1 + g) ^ k) [1..<Suc (nat n)]"
proof (cases "1 \<le> n")
  case True
  then have "n = int (nat n)" by simp
  then have "[1..n] = [1..int (nat n)]" by simp
  then show ?thesis
    unfolding project_cash_flows_def
    using upto_as_upt [of "\<lambda>k. c * (1 + g) ^ k" "nat n"] by simp
next
  case False
  then show ?thesis by (simp add: project_cash_flows_def)
qed

lemma length_project: "length (project_cash_flows c g n) = nat n"
  by (simp add: project_as_upt)

lemma nth_project:
  assumes "1 \<le> k" and "k \<le> nat n"
  shows "project_cash_flows c g n ! (k - 1) = c * (1 + g) ^ k"
proof -
  have len: "k - 1 < length [1..<Suc (nat n)]"
    using assms by simp
  have "[1..<Suc (nat n)] ! (k - 1) = k"
    using assms by (simp add: nth_upt del: upt_Suc)
  with nth_map [OF len, of "\<lambda>k. c * (1 + g) ^ k"] show ?thesis
    by (simp only: project_as_upt)
qed

lemma map2_same: "map (\<lambda>(j, cf). F j cf) (zip ks (map g ks)) = map (\<lambda>k. F k (g k)) ks"
  by (induction ks) simp_all

lemma discounted_map_upt:
  "discounted d i (map g [i..<j]) = map (\<lambda>k. g k / (1 + d) ^ k) [i..<j]"
proof (cases "i \<le> j")
  case True
  then have "i + (j - i) = j" by simp
  then show ?thesis by (simp add: discounted_def map2_same del: upt_Suc)
next
  case False
  then show ?thesis by simp
qed

lemma discounted_nth_sum:
  "sum_list (discounted d 1 xs) = (\<Sum>k = 1..length xs. xs ! (k - 1) / (1 + d) ^ k)"
proof -
  have xs: "xs = map (\<lambda>k. xs ! (k - 1)) [1..<Suc (length xs)]"
    by (rule nth_equalityI) (simp_all add: nth_map_upt del: upt_Suc)
  have "sum_list (discounted d 1 xs) =
      sum_list (discounted d 1 (map (\<lambda>k. xs ! (k - 1)) [1..<Suc (length xs)]))"
    using xs by simp
  also have "\<dots> = sum_list (map (\<lambda>k. xs ! (k - 1) / (1 + d) ^ k) [1..<Suc (length xs)])"
    by (simp only: discounted_map_upt)
  also have "\<dots> = (\<Sum>k = 1..length xs. xs ! (k - 1) / (1 + d) ^ k)"
    by (simp add: interv_sum_list_conv_sum_set_nat atLeastLessThanSuc_atLeastAtMost del: upt_Suc)
  finally show ?thesis .
qed

lemma growth_factor_positive:
  assumes "2 \<le> length (positive_flows cfs)"
  shows "0 < 1 + capped_growth (positive_flows cfs)"
proof -
  have ne: "positive_flows cfs \<noteq> []" using assms by auto
  have "0 < (last (positive_flows cfs) / hd (positive_flows cfs))
      powr (1 / real (length (positive_flows cfs) - 1))"
    using positive_hd [OF ne] positive_last [OF ne] by simp
  then have "0 < 1 + cagr (positive_flows cfs)"
    by (simp add: cagr_def)
  then show ?thesis
    by (simp add: capped_growth_def min_def)
qed

lemma last_projection:
  assumes "1 \<le> n"
  shows "last (projection cf n) = last cf * (1 + capped_growth cf) ^ nat n"
proof -
  from assms have "1 \<le> nat n" by simp
  then have "[1..<Suc (nat n)] = [1..<nat n] @ [nat n]" by simp
  then show ?thesis
    by (simp add: projection_def project_as_upt del: upt_Suc)
qed


lemma enterprise_value_split:
  assumes "1 \<le> n"
  shows "enterprise_value (valuation cf t d n) =
    (\<Sum>k = 1..<nat n. last cf * (1 + capped_growth cf) ^ k / (1 + d) ^ k)
    + (last cf * (1 + capped_growth cf) ^ nat n / (1 + d) ^ nat n
       + last cf * (1 + capped_growth cf) ^ nat n * (1 + t) / (d - t) / (1 + d) ^ nat n)"
proof -
  let ?f = "\<lambda>k. last cf * (1 + capped_growth cf) ^ k / (1 + d) ^ k"
  from assms have m: "1 \<le> nat n" by simp
  have "sum_list (discounted d 1 (projection cf n)) = sum_list (map ?f [1..<Suc (nat n)])"
    by (simp only: projection_def project_as_upt discounted_map_upt)
  also have "\<dots> = sum ?f {1..<Suc (nat n)}"
    by (simp add: interv_sum_list_conv_sum_set_nat del: upt_Suc)
  also have "\<dots> = sum ?f {1..<nat n} + ?f (nat n)"
    using m by (rule sum.atLeastLessThan_Suc)
  finally have s: "sum_list (discounted d 1 (projection cf n)) = sum ?f {1..<nat n} + ?f (nat n)" .
  show ?thesis
    using s by (simp add: valuation_def gordon_value_def last_projection [OF assms])
qed

lemma head_decreasing:
  fixes c q :: real
  assumes "0 \<le> c" and "0 \<le> q" and "- 1 < r1" and "r1 \<le> r2"
  shows "(\<Sum>k = 1..<m. c * q ^ k / (1 + r2) ^ k) \<le> (\<Sum>k = 1..<m. c * q ^ k / (1 + r1) ^ k)"
proof (rule sum_mono)
  fix k
  have "0 < (1 + r1) ^ k" using assms(3) by simp
  moreover have "(1 + r1) ^ k \<le> (1 + r2) ^ k"
    using assms(3,4) by (intro power_mono) simp_all
  moreover have "0 \<le> c * q ^ k" using assms(1,2) by simp
  ultimately show "c * q ^ k / (1 + r2) ^ k \<le> c * q ^ k / (1 + r1) ^ k"
    by (intro divide_left_mono) simp_all
qed




lemma discounted_term_decreasing:
  fixes a :: real
  assumes "0 \<le> a" and "- 1 < r1" and "r1 \<le> r2"
  shows "a / (1 + r2) ^ k \<le> a / (1 + r1) ^ k"
proof -
  have "0 < (1 + r1) ^ k" using assms(2) by simp
  moreover have "(1 + r1) ^ k \<le> (1 + r2) ^ k"
    using assms(2,3) by (intro power_mono) simp_all
  ultimately show ?thesis
    using assms(1) by (intro divide_left_mono) simp_all
qed

lemma terminal_term_decreasing:
  fixes a :: real
  assumes "0 \<le> a" and "- 1 < r1" and "t < r1" and "r1 \<le> r2"
  shows "a / (r2 - t) / (1 + r2) ^ m \<le> a / (r1 - t) / (1 + r1) ^ m"
proof -
  have d1: "0 < r1 - t" and d2: "0 < r2 - t" using assms(3,4) by simp_all
  have le: "a / (r2 - t) \<le> a / (r1 - t)"
    using assms(1,4) d1 d2 by (intro divide_left_mono) simp_all
  have nn: "0 \<le> a / (r1 - t)" using assms(1) d1 by simp
  have p: "0 < (1 + r1) ^ m" using assms(2) by simp
  have pw: "(1 + r1) ^ m \<le> (1 + r2) ^ m"
    using assms(2,4) by (intro power_mono) simp_all
  from nn le p pw show ?thesis by (rule frac_le)
qed

lemma small_run_projection:
  "projected_cash_flows (valuation [100, 100] (25 / 1000) (10 / 100) 1) = [100]"
  by (simp add: valuation_def projection_def project_cash_flows_def
      capped_growth_def cagr_def)

lemma small_run_terminal_value:
  "terminal_value (valuation [100, 100] (25 / 1000) (10 / 100) 1) = 4100 / 3"
  by (simp add: valuation_def gordon_value_def projection_def project_cash_flows_def
      capped_growth_def cagr_def)

lemma small_run_enterprise_value:
  "enterprise_value (valuation [100, 100] (25 / 1000) (10 / 100) 1) = 4000 / 3"
  by (simp add: valuation_def gordon_value_def projection_def project_cash_flows_def
      capped_growth_def cagr_def discounted_def)

lemma error_messages_differ:
  "calculate_dcf_value kind [100, - 50] t d n =
       Inl (ErrorDict ''Insufficient positive cash flow data'')
   \<and> calculate_dcf_value kind [100] t d n =
       Inl (ErrorDict ''Insufficient cash flow data for DCF calculation'')"
  by (simp add: dcf_short dcf_few_positive positive_flows_def)

lemma spec_view_error_dict [simp]: "spec_view (Inl (ErrorDict m)) = InsufficientDataError"
  by (simp add: spec_view_def)

section \<open>The claims\<close>

text \<open>
  Claim C1. Whenever the engine returns a valuation, its enterprise value is the sum over
  the years \<open>k = 1..forecast_years\<close> of the \<open>k\<close>-th projected cash flow divided by
  \<open>(1 + discount_rate) ^ k\<close>, plus the terminal value divided by
  \<open>(1 + discount_rate) ^ forecast_years\<close>; the returned present value of the forecast
  cash flows is that sum, and so the enterprise value is the returned present value of
  the forecast cash flows plus the returned present value of the terminal value.
  (The \<open>k\<close>-th projected cash flow is the list element of index \<open>k - 1\<close>.)
\<close>

theorem enterprise_value_discounted_sum:
  assumes "calculate_dcf_value kind cfs t d n = Inr r"
  shows "enterprise_value r =
           (\<Sum>k = 1..nat n. projected_cash_flows r ! (k - 1) / (1 + d) ^ k)
             + terminal_value r / (1 + d) ^ nat n
         \<and> pv_cash_flows r = (\<Sum>k = 1..nat n. projected_cash_flows r ! (k - 1) / (1 + d) ^ k)
         \<and> enterprise_value r = pv_cash_flows r + pv_terminal_value r"
proof -
  from dcf_returned(5) [OF assms]
  have r: "r = valuation (positive_flows cfs) t d n" .
  have len: "length (projection (positive_flows cfs) n) = nat n"
    by (simp add: projection_def length_project)
  show ?thesis
    unfolding r valuation_def
    using discounted_nth_sum [of d "projection (positive_flows cfs) n"] len by simp
qed

theorem enterprise_value_discounted_sum_witness:
  "calculate_dcf_value PythonFloat [100, 110, 121] (25 / 1000) (10 / 100) 5
     = Inr (valuation [100, 110, 121] (25 / 1000) (10 / 100) 5)
   \<and> enterprise_value (valuation [100, 110, 121] (25 / 1000) (10 / 100) 5) =
       (\<Sum>k = 1..5. projected_cash_flows (valuation [100, 110, 121] (25 / 1000) (10 / 100) 5) ! (k - 1)
           / (1 + 10 / 100) ^ k)
       + terminal_value (valuation [100, 110, 121] (25 / 1000) (10 / 100) 5) / (1 + 10 / 100) ^ 5
   \<and> enterprise_value (valuation [100, 110, 121] (25 / 1000) (10 / 100) 5) =
       pv_cash_flows (valuation [100, 110, 121] (25 / 1000) (10 / 100) 5)
       + pv_terminal_value (valuation [100, 110, 121] (25 / 1000) (10 / 100) 5)"
proof -
  have h: "calculate_dcf_value PythonFloat [100, 110, 121] (25 / 1000) (10 / 100) 5
     = Inr (valuation [100, 110, 121] (25 / 1000) (10 / 100) 5)"
    using dcf_returns [of "[100, 110, 121]" 5 "10 / 100" "25 / 1000" PythonFloat]
    by (simp add: positive_flows_def)
  from enterprise_value_discounted_sum [OF h] h show ?thesis by simp
qed

text \<open>
  Claim C2. Whenever the engine returns a valuation, its historical growth rate is the
  compound annual growth rate of the retained (strictly positive) cash flows: last over
  first, to the power one over the number of retained values minus one, minus one. For a
  constant input series it is 0.
\<close>

theorem historical_growth_is_cagr:
  assumes "calculate_dcf_value kind cfs t d n = Inr r"
  shows "historical_growth r =
           (last (filter (\<lambda>cf. cf > 0) cfs) / hd (filter (\<lambda>cf. cf > 0) cfs))
              powr (1 / real (length (filter (\<lambda>cf. cf > 0) cfs) - 1)) - 1
         \<and> ((\<forall>x \<in> set cfs. x = c) \<longrightarrow> historical_growth r = 0)"
proof -
  from dcf_returned [OF assms]
  have two: "2 \<le> length (positive_flows cfs)"
    and r: "r = valuation (positive_flows cfs) t d n" by simp_all
  have hg: "historical_growth r = cagr (positive_flows cfs)"
    by (simp add: r valuation_def)
  have ne: "positive_flows cfs \<noteq> []" using two by auto
  have const: "historical_growth r = 0" if all: "\<forall>x \<in> set cfs. x = c"
  proof -
    have sub: "set (positive_flows cfs) \<subseteq> set cfs"
      by (auto simp: positive_flows_def)
    have "hd (positive_flows cfs) \<in> set (positive_flows cfs)"
      and "last (positive_flows cfs) \<in> set (positive_flows cfs)"
      using ne by simp_all
    with sub all have "hd (positive_flows cfs) = c" and "last (positive_flows cfs) = c"
      by auto
    moreover have "0 < hd (positive_flows cfs)" by (rule positive_hd [OF ne])
    ultimately have "last (positive_flows cfs) / hd (positive_flows cfs) = 1" by simp
    then show ?thesis by (simp add: hg cagr_def)
  qed
  show ?thesis
    using hg const by (simp add: cagr_def positive_flows_def)
qed

theorem historical_growth_is_cagr_witness:
  "calculate_dcf_value PythonFloat [100, 100, 100] (25 / 1000) (10 / 100) 5
     = Inr (valuation [100, 100, 100] (25 / 1000) (10 / 100) 5)
   \<and> historical_growth (valuation [100, 100, 100] (25 / 1000) (10 / 100) 5) = 0
   \<and> historical_growth (valuation [100, 100, 100] (25 / 1000) (10 / 100) 5)
       = (100 / 100) powr (1 / 2) - 1"
proof -
  have h: "calculate_dcf_value PythonFloat [100, 100, 100] (25 / 1000) (10 / 100) 5
     = Inr (valuation [100, 100, 100] (25 / 1000) (10 / 100) 5)"
    using dcf_returns [of "[100, 100, 100]" 5 "10 / 100" "25 / 1000" PythonFloat]
    by (simp add: positive_flows_def)
  from historical_growth_is_cagr [OF h, of 100] h show ?thesis by simp
qed

text \<open>
  Claim C3. Whenever the engine returns a valuation, its forecast growth rate is the
  minimum of its historical growth rate and 0.15: never above 0.15, and equal to the
  historical growth rate whenever that is at most 0.15, in particular when it is
  negative (no floor). For the input \<open>[100, 1000]\<close> it is 0.15.
\<close>

theorem forecast_growth_is_capped:
  assumes "calculate_dcf_value kind cfs t d n = Inr r"
  shows "forecast_growth_rate r = min (historical_growth r) (15 / 100)
         \<and> forecast_growth_rate r \<le> 15 / 100
         \<and> (historical_growth r \<le> 15 / 100 \<longrightarrow> forecast_growth_rate r = historical_growth r)
         \<and> (cfs = [100, 1000] \<longrightarrow> forecast_growth_rate r = 15 / 100)"
proof -
  from dcf_returned(5) [OF assms]
  have r: "r = valuation (positive_flows cfs) t d n" .
  have m: "forecast_growth_rate r = min (historical_growth r) (15 / 100)"
    by (simp add: r valuation_def capped_growth_def)
  have "cagr (positive_flows [100, 1000]) = 9"
    by (simp add: cagr_def positive_flows_def)
  then have "cfs = [100, 1000] \<longrightarrow> historical_growth r = 9"
    by (simp add: r valuation_def)
  with m show ?thesis by auto
qed

theorem forecast_growth_is_capped_witness:
  "calculate_dcf_value PythonFloat [100, 1000] (25 / 1000) (10 / 100) 5
     = Inr (valuation [100, 1000] (25 / 1000) (10 / 100) 5)
   \<and> historical_growth (valuation [100, 1000] (25 / 1000) (10 / 100) 5) = 9
   \<and> forecast_growth_rate (valuation [100, 1000] (25 / 1000) (10 / 100) 5) = 15 / 100
   \<and> calculate_dcf_value PythonFloat [100, 50] (25 / 1000) (10 / 100) 5
     = Inr (valuation [100, 50] (25 / 1000) (10 / 100) 5)
   \<and> historical_growth (valuation [100, 50] (25 / 1000) (10 / 100) 5) = - (1 / 2)
   \<and> forecast_growth_rate (valuation [100, 50] (25 / 1000) (10 / 100) 5) = - (1 / 2)"
proof -
  have h: "calculate_dcf_value PythonFloat [100, 1000] (25 / 1000) (10 / 100) 5
     = Inr (valuation [100, 1000] (25 / 1000) (10 / 100) 5)"
    using dcf_returns [of "[100, 1000]" 5 "10 / 100" "25 / 1000" PythonFloat]
    by (simp add: positive_flows_def)
  have h': "calculate_dcf_value PythonFloat [100, 50] (25 / 1000) (10 / 100) 5
     = Inr (valuation [100, 50] (25 / 1000) (10 / 100) 5)"
    using dcf_returns [of "[100, 50]" 5 "10 / 100" "25 / 1000" PythonFloat]
    by (simp add: positive_flows_def)
  have g: "historical_growth (valuation [100, 1000] (25 / 1000) (10 / 100) 5) = 9"
    by (simp add: valuation_def cagr_def)
  have g': "historical_growth (valuation [100, 50] (25 / 1000) (10 / 100) 5) = - (1 / 2)"
    by (simp add: valuation_def cagr_def)
  from forecast_growth_is_capped [OF h] forecast_growth_is_capped [OF h'] h h' g g'
  show ?thesis by simp
qed

text \<open>
  Claim C4. Whenever the engine returns a valuation, the list of projected cash flows
  has exactly \<open>forecast_years\<close> elements, and for \<open>k = 1..forecast_years\<close> its \<open>k\<close>-th
  element (index \<open>k - 1\<close>) is the last retained positive cash flow times
  \<open>(1 + forecast_growth_rate) ^ k\<close>.
\<close>

theorem projected_cash_flows_compound:
  assumes "calculate_dcf_value kind cfs t d n = Inr r"
  shows "int (length (projected_cash_flows r)) = n
         \<and> (\<forall>k. 1 \<le> k \<and> k \<le> nat n \<longrightarrow>
               projected_cash_flows r ! (k - 1) =
                 last (filter (\<lambda>cf. cf > 0) cfs) * (1 + forecast_growth_rate r) ^ k)"
proof -
  from dcf_returned [OF assms]
  have n1: "1 \<le> n" and r: "r = valuation (positive_flows cfs) t d n" by simp_all
  have p: "projected_cash_flows r =
      project_cash_flows (last (positive_flows cfs)) (forecast_growth_rate r) n"
    by (simp add: r valuation_def projection_def)
  have "int (length (projected_cash_flows r)) = n"
    using n1 by (simp add: p length_project)
  moreover have "projected_cash_flows r ! (k - 1) =
      last (filter (\<lambda>cf. cf > 0) cfs) * (1 + forecast_growth_rate r) ^ k"
    if "1 \<le> k" and "k \<le> nat n" for k
    using nth_project [OF that, of "last (positive_flows cfs)" "forecast_growth_rate r"]
    by (simp add: p positive_flows_def)
  ultimately show ?thesis by blast
qed

theorem projected_cash_flows_compound_witness:
  "calculate_dcf_value PythonFloat [100, - 50, 1000] (25 / 1000) (10 / 100) 5
     = Inr (valuation [100, 1000] (25 / 1000) (10 / 100) 5)
   \<and> length (projected_cash_flows (valuation [100, 1000] (25 / 1000) (10 / 100) 5)) = 5
   \<and> projected_cash_flows (valuation [100, 1000] (25 / 1000) (10 / 100) 5) ! 2
       = 1000 * (1 + 15 / 100) ^ 3"
proof -
  have h: "calculate_dcf_value PythonFloat [100, - 50, 1000] (25 / 1000) (10 / 100) 5
     = Inr (valuation [100, 1000] (25 / 1000) (10 / 100) 5)"
    using dcf_returns [of "[100, - 50, 1000]" 5 "10 / 100" "25 / 1000" PythonFloat]
    by (simp add: positive_flows_def)
  have g: "forecast_growth_rate (valuation [100, 1000] (25 / 1000) (10 / 100) 5) = 15 / 100"
    by (simp add: valuation_def capped_growth_def cagr_def)
  note c = projected_cash_flows_compound [OF h]
  from conjunct1 [OF c]
  have len: "length (projected_cash_flows (valuation [100, 1000] (25 / 1000) (10 / 100) 5)) = 5"
    by simp
  from conjunct2 [OF c, THEN spec, of 3]
  have k3: "projected_cash_flows (valuation [100, 1000] (25 / 1000) (10 / 100) 5) ! 2
       = 1000 * (1 + forecast_growth_rate (valuation [100, 1000] (25 / 1000) (10 / 100) 5)) ^ 3"
    by simp
  from len k3 [unfolded g] h show ?thesis by simp
qed

text \<open>
  Claim C5. Whenever the engine returns a valuation, its terminal value is the last
  projected cash flow (that of year \<open>forecast_years\<close>) times \<open>1 + terminal_growth_rate\<close>
  divided by \<open>discount_rate - terminal_growth_rate\<close>, and its present value of the
  terminal value is the terminal value divided by
  \<open>(1 + discount_rate) ^ forecast_years\<close>.
\<close>

theorem terminal_value_is_gordon:
  assumes "calculate_dcf_value kind cfs t d n = Inr r"
  shows "terminal_value r = projected_cash_flows r ! (nat n - 1) * (1 + t) / (d - t)
         \<and> pv_terminal_value r = terminal_value r / (1 + d) ^ nat n"
proof -
  from dcf_returned [OF assms]
  have n1: "1 \<le> n" and r: "r = valuation (positive_flows cfs) t d n" by simp_all
  have ne: "projection (positive_flows cfs) n \<noteq> []"
    using n1 by (simp add: projection_def project_not_Nil)
  have "length (projection (positive_flows cfs) n) = nat n"
    by (simp add: projection_def length_project)
  with last_conv_nth [OF ne]
  have "last (projection (positive_flows cfs) n) = projection (positive_flows cfs) n ! (nat n - 1)"
    by simp
  then show ?thesis
    by (simp add: r valuation_def gordon_value_def)
qed

theorem terminal_value_is_gordon_witness:
  "calculate_dcf_value PythonFloat [100, 100] (25 / 1000) (10 / 100) 1
     = Inr (valuation [100, 100] (25 / 1000) (10 / 100) 1)
   \<and> projected_cash_flows (valuation [100, 100] (25 / 1000) (10 / 100) 1) = [100]
   \<and> terminal_value (valuation [100, 100] (25 / 1000) (10 / 100) 1) = 4100 / 3
   \<and> enterprise_value (valuation [100, 100] (25 / 1000) (10 / 100) 1) = 4000 / 3
   \<and> terminal_value (valuation [100, 100] (25 / 1000) (10 / 100) 1)
       = projected_cash_flows (valuation [100, 100] (25 / 1000) (10 / 100) 1) ! 0
           * (1 + 25 / 1000) / (10 / 100 - 25 / 1000)
   \<and> pv_terminal_value (valuation [100, 100] (25 / 1000) (10 / 100) 1)
       = terminal_value (valuation [100, 100] (25 / 1000) (10 / 100) 1) / (1 + 10 / 100) ^ 1"
proof -
  have h: "calculate_dcf_value PythonFloat [100, 100] (25 / 1000) (10 / 100) 1
     = Inr (valuation [100, 100] (25 / 1000) (10 / 100) 1)"
    using dcf_returns [of "[100, 100]" 1 "10 / 100" "25 / 1000" PythonFloat]
    by (simp add: positive_flows_def)
  from terminal_value_is_gordon [OF h] h
    small_run_projection small_run_terminal_value small_run_enterprise_value
  show ?thesis by simp
qed

text \<open>
  Claim C6. For every cash-flow sequence with fewer than 2 elements, and for every
  sequence of which fewer than 2 strictly positive values remain after the filter, the
  engine returns the insufficient-data error dictionary (the first message when the
  sequence itself is short, the second otherwise) and no valuation, whatever the other
  parameters are.
\<close>

theorem insufficient_data_error:
  assumes "length cfs < 2 \<or> length (filter (\<lambda>cf. cf > 0) cfs) < 2"
  shows "calculate_dcf_value kind cfs t d n =
           Inl (ErrorDict (if length cfs < 2
                           then ''Insufficient cash flow data for DCF calculation''
                           else ''Insufficient positive cash flow data''))
         \<and> (\<forall>r. calculate_dcf_value kind cfs t d n \<noteq> Inr r)"
proof (cases "length cfs < 2")
  case True
  from dcf_short [OF this, of kind t d n] True show ?thesis by simp
next
  case False
  with assms have few: "length (positive_flows cfs) < 2"
    by (simp add: positive_flows_def)
  from False have "2 \<le> length cfs" by simp
  from dcf_few_positive [OF this few, of kind t d n] False show ?thesis by simp
qed

theorem insufficient_data_error_witness:
  "calculate_dcf_value PythonFloat [100] (25 / 1000) (10 / 100) 5 =
     Inl (ErrorDict ''Insufficient cash flow data for DCF calculation'')
   \<and> calculate_dcf_value PythonFloat [100, - 50, 0] (25 / 1000) (10 / 100) 5 =
     Inl (ErrorDict ''Insufficient positive cash flow data'')"
  using insufficient_data_error [of "[100]" PythonFloat "25 / 1000" "10 / 100" 5]
    insufficient_data_error [of "[100, - 50, 0]" PythonFloat "25 / 1000" "10 / 100" 5]
  by simp

text \<open>
  Claim C7. Removing the non-positive entries before the call does not change the
  result: for every sequence, every kind of element and all parameters, \<open>computeDCF\<close>
  of the sequence is \<open>computeDCF\<close> of its strictly positive subsequence; so
  \<open>[100, -50, 110, 121]\<close> gives what \<open>[100, 110, 121]\<close> gives. (When fewer than 2
  strictly positive values remain, both calls give \<open>InsufficientDataError\<close>; the two
  dictionaries of the source can then differ in the message, as for \<open>[100, -50]\<close> and
  \<open>[100]\<close>, which the specification does not tell apart.)
\<close>

theorem filtering_first_same_result:
  "computeDCF kind cfs t d n = computeDCF kind (filter (\<lambda>cf. cf > 0) cfs) t d n"
proof -
  have idem: "positive_flows (positive_flows cfs) = positive_flows cfs"
    by (simp add: positive_flows_def)
  have "computeDCF kind cfs t d n = computeDCF kind (positive_flows cfs) t d n"
  proof (cases "2 \<le> length (positive_flows cfs)")
    case two: True
    then have "2 \<le> length (positive_flows (positive_flows cfs))"
      by (simp only: idem)
    from dcf_body [OF this, of kind t d n] dcf_body [OF two, of kind t d n]
    have "calculate_dcf_value kind cfs t d n
        = calculate_dcf_value kind (positive_flows cfs) t d n"
      by (simp only: idem)
    then show ?thesis by (simp only: computeDCF_def)
  next
    case False
    then have few: "length (positive_flows cfs) < 2" by simp
    have right: "computeDCF kind (positive_flows cfs) t d n = InsufficientDataError"
      by (simp add: computeDCF_def dcf_short [OF few])
    have left: "computeDCF kind cfs t d n = InsufficientDataError"
    proof (cases "length cfs < 2")
      case True
      then show ?thesis by (simp add: computeDCF_def dcf_short)
    next
      case False
      then have "2 \<le> length cfs" by simp
      from dcf_few_positive [OF this few] show ?thesis by (simp add: computeDCF_def)
    qed
    from left right show ?thesis by simp
  qed
  then show ?thesis by (simp only: positive_flows_def)
qed

theorem filtering_first_same_result_witness:
  "computeDCF PythonFloat [100, - 50, 110, 121] (25 / 1000) (10 / 100) 5
     = computeDCF PythonFloat [100, 110, 121] (25 / 1000) (10 / 100) 5
   \<and> computeDCF PythonFloat [100, 110, 121] (25 / 1000) (10 / 100) 5
     = DCFResult (valuation [100, 110, 121] (25 / 1000) (10 / 100) 5)
   \<and> computeDCF PythonFloat [100, - 50] (25 / 1000) (10 / 100) 5
     = computeDCF PythonFloat [100] (25 / 1000) (10 / 100) 5
   \<and> computeDCF PythonFloat [100] (25 / 1000) (10 / 100) 5 = InsufficientDataError"
proof -
  have h: "computeDCF PythonFloat [100, 110, 121] (25 / 1000) (10 / 100) 5
     = DCFResult (valuation [100, 110, 121] (25 / 1000) (10 / 100) 5)"
    using dcf_returns [of "[100, 110, 121]" 5 "10 / 100" "25 / 1000" PythonFloat]
    by (simp add: positive_flows_def computeDCF_def spec_view_def)
  have e: "computeDCF PythonFloat [100] (25 / 1000) (10 / 100) 5 = InsufficientDataError"
    by (simp add: computeDCF_def dcf_short)
  from filtering_first_same_result [of PythonFloat "[100, - 50, 110, 121]" "25 / 1000" "10 / 100" 5]
    filtering_first_same_result [of PythonFloat "[100, - 50]" "25 / 1000" "10 / 100" 5] h e
  show ?thesis by simp
qed

text \<open>
  Claim C8, as stated, fails for a pair of discount rates on the two sides of the
  terminal growth rate: with the cash flows \<open>[100, 100]\<close>, the terminal growth rate
  0.025 and 5 forecast years, the discount rate 0.01 gives a negative enterprise value
  and the larger discount rate 0.10 a positive one.
\<close>

theorem crossing_rates_counterexample:
  "(1 / 100 :: real) < 10 / 100
   \<and> calculate_dcf_value PythonFloat [100, 100] (25 / 1000) (1 / 100) 5
       = Inr (valuation [100, 100] (25 / 1000) (1 / 100) 5)
   \<and> calculate_dcf_value PythonFloat [100, 100] (25 / 1000) (10 / 100) 5
       = Inr (valuation [100, 100] (25 / 1000) (10 / 100) 5)
   \<and> enterprise_value (valuation [100, 100] (25 / 1000) (1 / 100) 5) < 0
   \<and> 0 < enterprise_value (valuation [100, 100] (25 / 1000) (10 / 100) 5)"
proof -
  have a: "calculate_dcf_value PythonFloat [100, 100] (25 / 1000) (1 / 100) 5
       = Inr (valuation [100, 100] (25 / 1000) (1 / 100) 5)"
    using dcf_returns [of "[100, 100]" 5 "1 / 100" "25 / 1000" PythonFloat]
    by (simp add: positive_flows_def)
  have b: "calculate_dcf_value PythonFloat [100, 100] (25 / 1000) (10 / 100) 5
       = Inr (valuation [100, 100] (25 / 1000) (10 / 100) 5)"
    using dcf_returns [of "[100, 100]" 5 "10 / 100" "25 / 1000" PythonFloat]
    by (simp add: positive_flows_def)
  have g: "capped_growth [100, 100] = 0"
    by (simp add: capped_growth_def cagr_def)
  have s4: "(\<Sum>k = Suc 0..<5. f k) = f 1 + f 2 + f 3 + f (4 :: nat)" for f :: "nat \<Rightarrow> real"
  proof -
    have "{Suc 0..<5} = {1, 2, 3, 4 :: nat}" by auto
    then show ?thesis by simp
  qed
  have c: "enterprise_value (valuation [100, 100] (25 / 1000) (1 / 100) 5) < 0"
    unfolding enterprise_value_split [of 5 "[100, 100]", simplified g, simplified] s4
    by (simp add: power_divide)
  have d: "0 < enterprise_value (valuation [100, 100] (25 / 1000) (10 / 100) 5)"
    unfolding enterprise_value_split [of 5 "[100, 100]", simplified g, simplified] s4
    by (simp add: power_divide)
  from a b c d show ?thesis by simp
qed

text \<open>
  Claim C8, amended. With the cash flows, a terminal growth rate above -1 and the
  forecast years fixed, the enterprise value does not increase with the discount rate
  on the rates above the terminal growth rate: for \<open>r1 \<le> r2\<close> there, whenever the
  engine returns a valuation for both, the enterprise value for \<open>r2\<close> is at most the one
  for \<open>r1\<close>. Every discounted cash flow and the discounted terminal value are then
  non-negative and do not increase with the rate, one by one. (The inequality is not
  strict: two neighbouring floating-point rates have the same \<open>1 + r\<close> and \<open>r - t\<close>
  and give the same dictionary.)
\<close>

theorem enterprise_value_nonincreasing:
  assumes "calculate_dcf_value kind cfs t r1 n = Inr v1"
    and "calculate_dcf_value kind cfs t r2 n = Inr v2"
    and "- 1 < t" and "t < r1" and "r1 \<le> r2"
  shows "enterprise_value v2 \<le> enterprise_value v1"
proof -
  let ?cf = "positive_flows cfs"
  let ?c = "last ?cf"
  let ?q = "1 + capped_growth ?cf"
  from dcf_returned [OF assms(1)]
  have two: "2 \<le> length ?cf" and n1: "1 \<le> n" and v1: "v1 = valuation ?cf t r1 n"
    by simp_all
  from dcf_returned(5) [OF assms(2)]
  have v2: "v2 = valuation ?cf t r2 n" .
  from two have ne: "?cf \<noteq> []" by auto
  have c: "0 < ?c" by (rule positive_last [OF ne])
  have q: "0 < ?q" by (rule growth_factor_positive [OF two])
  have r1: "- 1 < r1" using assms(3,4) by simp
  have a: "0 \<le> ?c * ?q ^ nat n" using c q by simp
  then have at: "0 \<le> ?c * ?q ^ nat n * (1 + t)" using assms(3) by simp
  have head: "(\<Sum>k = 1..<nat n. ?c * ?q ^ k / (1 + r2) ^ k)
      \<le> (\<Sum>k = 1..<nat n. ?c * ?q ^ k / (1 + r1) ^ k)"
    using c q r1 assms(5) by (intro head_decreasing) simp_all
  have mid: "?c * ?q ^ nat n / (1 + r2) ^ nat n \<le> ?c * ?q ^ nat n / (1 + r1) ^ nat n"
    by (rule discounted_term_decreasing [OF a r1 assms(5)])
  have tail: "?c * ?q ^ nat n * (1 + t) / (r2 - t) / (1 + r2) ^ nat n
      \<le> ?c * ?q ^ nat n * (1 + t) / (r1 - t) / (1 + r1) ^ nat n"
    by (rule terminal_term_decreasing [OF at r1 assms(4,5)])
  show ?thesis
    unfolding v1 v2 enterprise_value_split [OF n1]
    by (intro add_mono head mid tail)
qed

theorem enterprise_value_nonincreasing_witness:
  "calculate_dcf_value PythonFloat [100, 110, 121] (25 / 1000) (8 / 100) 5
     = Inr (valuation [100, 110, 121] (25 / 1000) (8 / 100) 5)
   \<and> calculate_dcf_value PythonFloat [100, 110, 121] (25 / 1000) (10 / 100) 5
     = Inr (valuation [100, 110, 121] (25 / 1000) (10 / 100) 5)
   \<and> enterprise_value (valuation [100, 110, 121] (25 / 1000) (10 / 100) 5)
       \<le> enterprise_value (valuation [100, 110, 121] (25 / 1000) (8 / 100) 5)"
proof -
  have h1: "calculate_dcf_value PythonFloat [100, 110, 121] (25 / 1000) (8 / 100) 5
     = Inr (valuation [100, 110, 121] (25 / 1000) (8 / 100) 5)"
    using dcf_returns [of "[100, 110, 121]" 5 "8 / 100" "25 / 1000" PythonFloat]
    by (simp add: positive_flows_def)
  have h2: "calculate_dcf_value PythonFloat [100, 110, 121] (25 / 1000) (10 / 100) 5
     = Inr (valuation [100, 110, 121] (25 / 1000) (10 / 100) 5)"
    using dcf_returns [of "[100, 110, 121]" 5 "10 / 100" "25 / 1000" PythonFloat]
    by (simp add: positive_flows_def)
  have "enterprise_value (valuation [100, 110, 121] (25 / 1000) (10 / 100) 5)
       \<le> enterprise_value (valuation [100, 110, 121] (25 / 1000) (8 / 100) 5)"
    by (rule enterprise_value_nonincreasing [OF h1 h2]) simp_all
  with h1 h2 show ?thesis by simp
qed







end
